theory Spec2Isabelle
  imports Main "HOL-Library.AList"
begin

section \<open>Swagger 2.0 metadata middleware: data model\<close>

text \<open>
  The development embeds \<^verbatim>\<open>middleware/2.0/swagger-metadata.js\<close>. JavaScript values
  that the middleware only passes along (parameter values, defaults) are a datatype;
  \<^verbatim>\<open>undefined\<close> is \<open>None\<close> of an option type, so a JavaScript \<^verbatim>\<open>null\<close> is a defined value.
\<close>

datatype jsval =
    JNull
  | JBoolean bool
  | JNumber int
  | JString string
  | JArray "jsval list"
  | JObject "(string \<times> jsval) list"

text \<open>
  An object with string keys, in property order: a write to a new key appends, a write
  to an existing key replaces its value in place (\<open>AList.update\<close>), a read is
  \<open>map_of\<close>. Property order is insertion order for keys that are not array indices:
  path names start with \<^verbatim>\<open>/\<close>, and so does the string of a regular expression. (A
  parameter named like an array index would be enumerated first in \<^verbatim>\<open>params\<close>; what
  is read under each name does not depend on the order.)
\<close>

type_synonym 'a object = "(string \<times> 'a) list"

text \<open>
  A read \<^verbatim>\<open>obj[k]\<close> on a plain object finds an own property first, then a property
  that every plain object inherits from \<^verbatim>\<open>Object.prototype\<close>, and is \<^verbatim>\<open>undefined\<close>
  otherwise. The handler reads \<^verbatim>\<open>path.operations\<close>, created as \<^verbatim>\<open>{}\<close> on line 62, under
  a name taken from the request, so the inherited names matter there:
  \<^verbatim>\<open>operations['constructor']\<close> is the function \<^verbatim>\<open>Object\<close>, not \<^verbatim>\<open>undefined\<close>.
\<close>

definition objectPrototype :: "string list" where
  "objectPrototype =
     [''constructor'', ''__proto__'', ''hasOwnProperty'', ''isPrototypeOf'',
      ''propertyIsEnumerable'', ''toLocaleString'', ''toString'', ''valueOf'',
      ''__defineGetter__'', ''__defineSetter__'', ''__lookupGetter__'', ''__lookupSetter__'']"

datatype 'a property = Own 'a | Inherited string

definition getProperty :: "'a object \<Rightarrow> string \<Rightarrow> 'a property option" where
  "getProperty obj k =
     (case map_of obj k of
        Some v \<Rightarrow> Some (Own v)
      | None \<Rightarrow> if k \<in> set objectPrototype then Some (Inherited k) else None)"

record schemaObject =
  default' :: "jsval option"

text \<open>
  A parameter declaration. \<open>oid\<close> is the identity of the declaration object:
  \<^verbatim>\<open>_.union\<close> compares its elements with \<^verbatim>\<open>===\<close>, so two declarations written
  separately are different elements even when all their fields agree, and one object
  listed twice is one element.
\<close>

record param =
  oid :: nat
  name :: string
  in' :: "string option"
  schema :: "schemaObject option"

record operation =
  operationId :: string
  parameters :: "param list option"

text \<open>
  A path item: its shared \<^verbatim>\<open>parameters\<close> and its operation-valued properties, which
  \<^verbatim>\<open>path[method]\<close> reads.
\<close>

record pathItem =
  parameters :: "param list option"
  methodProps :: "operation object"

record swaggerObject =
  basePath :: "string option"
  paths :: "pathItem object"

text \<open>
  A regular expression object, by the two things the middleware does with it:
  \<^verbatim>\<open>re.toString()\<close> and \<^verbatim>\<open>re.exec(str)\<close>, which is \<^verbatim>\<open>null\<close> (\<open>None\<close>) or the match
  array: the whole match at index 0, then one entry per capture group, \<^verbatim>\<open>undefined\<close>
  for a group that took no part.
\<close>

type_synonym match = "string option list"

record regexp =
  toString :: string
  exec :: "string \<Rightarrow> match option"

text \<open>
  \<^verbatim>\<open>pathToRegexp(expressStylePath(basePath, pathName), keys)\<close>: the helper
  \<^verbatim>\<open>expressStylePath\<close> and the library are not part of the embedded file, so the
  compilation step is a parameter of the model. It returns the regular expression and
  the names of the keys it collected.
\<close>

type_synonym compile = "string option \<Rightarrow> string \<Rightarrow> regexp \<times> string list"

record route =
  path :: pathItem
  keys :: "string list"
  re :: regexp
  operations :: "operation object"

record paramValue =
  schema :: param
  "value" :: "jsval option"

record metadata =
  path :: "pathItem option"
  operation :: "operation property option"
  params :: "paramValue object"
  swaggerObject :: swaggerObject

text \<open>
  The request as the middleware sees it. \<open>query\<close> and \<open>body\<close> are \<open>None\<close> when the
  query or body parser has not run; \<open>swagger\<close> is \<^verbatim>\<open>req.swagger\<close>.
\<close>

record request =
  url :: string
  "method" :: string
  query :: "jsval object option"
  headers :: "jsval object"
  body :: "jsval object option"
  swagger :: "metadata option"

datatype error = Error (message: string)

section \<open>Library functions the middleware calls\<close>

text \<open>
  \<^verbatim>\<open>_.union(a, b)\<close>: the elements of the arrays among its arguments, in order, each
  kept at its first occurrence; an argument that is not an array (an absent
  \<^verbatim>\<open>parameters\<close>) contributes nothing.
\<close>

fun baseUniq :: "'a list \<Rightarrow> 'a list \<Rightarrow> 'a list" where
  "baseUniq result [] = result"
| "baseUniq result (x # xs) =
     (if x \<in> set result then baseUniq result xs else baseUniq (result @ [x]) xs)"

definition baseFlatten :: "'a list option list \<Rightarrow> 'a list" where
  "baseFlatten args = concat (map (\<lambda>a. case a of None \<Rightarrow> [] | Some xs \<Rightarrow> xs) args)"

definition lodash_union :: "'a list option \<Rightarrow> 'a list option \<Rightarrow> 'a list" where
  "lodash_union a b = baseUniq [] (baseFlatten [a, b])"

text \<open>\<^verbatim>\<open>String.prototype.toLowerCase\<close> on the ASCII letters of a method name.\<close>

definition lower_char :: "char \<Rightarrow> char" where
  "lower_char c =
     (case map_of (zip ''ABCDEFGHIJKLMNOPQRSTUVWXYZ'' ''abcdefghijklmnopqrstuvwxyz'') c of
        None \<Rightarrow> c
      | Some d \<Rightarrow> d)"

definition toLowerCase :: "string \<Rightarrow> string" where
  "toLowerCase s = map lower_char s"

text \<open>
  \<^verbatim>\<open>parseurl(req).pathname\<close> for an origin-form request target: the part of
  \<^verbatim>\<open>req.url\<close> before the query string.
\<close>

definition pathname :: "string \<Rightarrow> string" where
  "pathname u = takeWhile (\<lambda>c. c \<noteq> CHR ''?'') u"

section \<open>Building the route table\<close>

definition methodNames :: "string list" where
  "methodNames = [''get'', ''put'', ''post'', ''delete'', ''options'', ''head'', ''patch'']"

text \<open>
  The inner loop of the constructor: \<^verbatim>\<open>operations\<close> starts empty and receives, in the
  order of the seven method names, every \<^verbatim>\<open>path[method]\<close> that is defined. None of the
  seven names is inherited, so the read finds own properties only.
\<close>

fun gatherOperations :: "pathItem \<Rightarrow> string list \<Rightarrow> operation object \<Rightarrow> operation object" where
  "gatherOperations p [] ops = ops"
| "gatherOperations p (m # ms) ops =
     (case map_of (methodProps p) m of
        None \<Rightarrow> gatherOperations p ms ops
      | Some opn \<Rightarrow> gatherOperations p ms (AList.update m opn ops))"

definition routeOf :: "compile \<Rightarrow> string option \<Rightarrow> string \<Rightarrow> pathItem \<Rightarrow> route" where
  "routeOf cmp bp pathName p =
     (let (r, ks) = cmp bp pathName
      in \<lparr>route.path = p, keys = ks, re = r,
          operations = gatherOperations p methodNames []\<rparr>)"

text \<open>
  The outer loop, lines 53 to 72: \<^verbatim>\<open>paths[reStr] = {...}\<close> for every path of the
  description in turn. The table is an object keyed by \<^verbatim>\<open>re.toString()\<close>.
\<close>

fun gatherPaths :: "compile \<Rightarrow> string option \<Rightarrow> pathItem object \<Rightarrow> route object \<Rightarrow> route object" where
  "gatherPaths cmp bp [] table = table"
| "gatherPaths cmp bp ((pathName, p) # rest) table =
     (let rt = routeOf cmp bp pathName p;
          reStr = toString (re rt)
      in gatherPaths cmp bp rest (AList.update reStr rt table))"

section \<open>The middleware\<close>

text \<open>
  \<^verbatim>\<open>_.find(paths, ...)\<close>: the first route, in the table's property order, whose
  \<^verbatim>\<open>re.exec(rPath)\<close> is an array. The callback stores each result in \<^verbatim>\<open>match\<close>, so
  after a successful search \<^verbatim>\<open>match\<close> is the match of the route found.
\<close>

fun findPath :: "route object \<Rightarrow> string \<Rightarrow> (route \<times> match) option" where
  "findPath [] rPath = None"
| "findPath ((reStr, rt) # rest) rPath =
     (case exec (re rt) rPath of
        Some m \<Rightarrow> Some (rt, m)
      | None \<Rightarrow> findPath rest rPath)"

text \<open>
  Lines 81 to 86: the metadata record before any parameter is collected. Its operation
  is \<^verbatim>\<open>path.operations[req.method.toLowerCase()]\<close>, a read on a plain object.
\<close>

definition newMetadata :: "swaggerObject \<Rightarrow> (route \<times> match) option \<Rightarrow> request \<Rightarrow> metadata" where
  "newMetadata so found req =
     \<lparr>metadata.path = (case found of None \<Rightarrow> None | Some (rt, m) \<Rightarrow> Some (route.path rt)),
      operation = (case found of
                     None \<Rightarrow> None
                   | Some (rt, m) \<Rightarrow> getProperty (operations rt) (toLowerCase (method req))),
      params = [],
      swaggerObject = so\<rparr>"

text \<open>\<^verbatim>\<open>param.in || 'query'\<close>: an absent or empty \<^verbatim>\<open>in\<close> is falsy.\<close>

definition paramType :: "param \<Rightarrow> string" where
  "paramType p = (case in' p of None \<Rightarrow> ''query'' | Some t \<Rightarrow> if t = [] then ''query'' else t)"

text \<open>
  The \<^verbatim>\<open>path\<close> case, lines 114 to 118: every key is visited, and each key that bears
  the parameter's name assigns \<^verbatim>\<open>match[index + 1]\<close>, which is \<^verbatim>\<open>undefined\<close> beyond the
  end of the match array.
\<close>

definition matchAt :: "match \<Rightarrow> nat \<Rightarrow> jsval option" where
  "matchAt m i = (if i < length m then map_option JString (m ! i) else None)"

fun eachKey :: "string list \<Rightarrow> nat \<Rightarrow> match \<Rightarrow> string \<Rightarrow> jsval option \<Rightarrow> jsval option" where
  "eachKey [] index m n val = val"
| "eachKey (key # ks) index m n val =
     eachKey ks (index + 1) m n (if key = n then matchAt m (index + 1) else val)"

definition bodyError :: error where
  "bodyError = Error ''Server configuration error: req.body is not defined but is required''"

definition queryError :: error where
  "queryError = Error ''Server configuration error: req.query is not defined but is required''"

text \<open>The \<^verbatim>\<open>switch\<close> of lines 99 to 129. It has no default case.\<close>

definition getValue :: "route \<Rightarrow> match \<Rightarrow> request \<Rightarrow> param \<Rightarrow> error + jsval option" where
  "getValue rt m req p =
     (let t = paramType p
      in if t = ''body'' \<or> t = ''formData'' then
           (case body req of None \<Rightarrow> Inl bodyError | Some b \<Rightarrow> Inr (map_of b (name p)))
         else if t = ''header'' then Inr (map_of (headers req) (name p))
         else if t = ''path'' then Inr (eachKey (keys rt) 0 m (name p) None)
         else if t = ''query'' then
           (case query req of None \<Rightarrow> Inl queryError | Some q \<Rightarrow> Inr (map_of q (name p)))
         else Inr None)"

text \<open>Lines 131 to 134.\<close>

definition useDefault :: "param \<Rightarrow> jsval option \<Rightarrow> jsval option" where
  "useDefault p val =
     (case val of
        Some v \<Rightarrow> Some v
      | None \<Rightarrow> (case param.schema p of
                   None \<Rightarrow> None
                 | Some s \<Rightarrow> (case default' s of None \<Rightarrow> None | Some d \<Rightarrow> Some d)))"

text \<open>The body of the loop over the declarations: the entry it stores, or the error it throws.\<close>

definition resolveParam :: "route \<Rightarrow> match \<Rightarrow> request \<Rightarrow> param \<Rightarrow> error + paramValue" where
  "resolveParam rt m req p =
     (case getValue rt m req p of
        Inl e \<Rightarrow> Inl e
      | Inr val \<Rightarrow> Inr \<lparr>schema = p, value = useDefault p val\<rparr>)"

text \<open>
  The loop of lines 94 to 140 over \<^verbatim>\<open>metadata.params\<close>, which it updates in place: the
  result is the state of \<^verbatim>\<open>metadata.params\<close> when the loop ends and the error thrown,
  if any. A throw ends the loop with the entries stored so far.
\<close>

fun eachParam :: "route \<Rightarrow> match \<Rightarrow> request \<Rightarrow> param list \<Rightarrow> paramValue object
    \<Rightarrow> paramValue object \<times> error option" where
  "eachParam rt m req [] ps = (ps, None)"
| "eachParam rt m req (p # rest) ps =
     (case resolveParam rt m req p of
        Inl e \<Rightarrow> (ps, Some e)
      | Inr entry \<Rightarrow> eachParam rt m req rest (AList.update (name p) entry ps))"

text \<open>
  \<^verbatim>\<open>metadata.operation.parameters\<close>: the declarations of a declared operation; an
  inherited value has no such property.
\<close>

definition operationParameters :: "operation property \<Rightarrow> param list option" where
  "operationParameters v =
     (case v of Own opn \<Rightarrow> operation.parameters opn | Inherited k \<Rightarrow> None)"

text \<open>
  The request handler, lines 74 to 150. It returns the request, with \<^verbatim>\<open>req.swagger\<close> set
  when the loop completed, and the argument of \<^verbatim>\<open>next\<close>: \<open>None\<close> for \<^verbatim>\<open>next()\<close>, the
  message for \<^verbatim>\<open>next(err.message)\<close>.
\<close>

definition swaggerMetadata :: "route object \<Rightarrow> swaggerObject \<Rightarrow> request \<Rightarrow> request \<times> string option" where
  "swaggerMetadata table so req =
     (let rPath = pathname (url req);
          found = findPath table rPath;
          md = newMetadata so found req
      in case (found, operation md) of
           (Some (rt, m), Some v) \<Rightarrow>
             (case eachParam rt m req
                     (lodash_union (pathItem.parameters (route.path rt))
                                   (operationParameters v)) (params md) of
                (ps, Some err) \<Rightarrow> (req, Some (message err))
              | (ps, None) \<Rightarrow> (req\<lparr>swagger := Some (md\<lparr>params := ps\<rparr>)\<rparr>, None))
         | _ \<Rightarrow> (req, None))"

text \<open>
  The constructor, lines 43 to 73: it builds the table once and returns the handler. Its
  two argument checks (an undefined description, a description that is not a plain
  object) cannot fail on a value of type \<open>swaggerObject\<close>.
\<close>

definition swaggerMetadataMiddleware :: "compile \<Rightarrow> swaggerObject \<Rightarrow> request \<Rightarrow> request \<times> string option" where
  "swaggerMetadataMiddleware cmp so =
     swaggerMetadata (gatherPaths cmp (basePath so) (paths so) []) so"

section \<open>The template compiler\<close>

text \<open>
  Modelled from the spec: the helper \<^verbatim>\<open>expressStylePath\<close> (in \<^verbatim>\<open>helpers.js\<close>) is not
  among the source files, and the patterns come from the \<^verbatim>\<open>path-to-regexp\<close> library. A
  compiled template is a sequence of literal characters and capture slots; a placeholder
  \<^verbatim>\<open>{identifier}\<close> becomes a slot.
\<close>

datatype token = Lit char | Slot string

text \<open>
  Modelled from the spec: the scanner behind \<^verbatim>\<open>expressStylePath\<close>. The second argument
  holds the identifier read so far inside an open brace; a brace that is never closed is
  literal text.
\<close>

fun scan :: "string \<Rightarrow> string option \<Rightarrow> token list" where
  "scan [] None = []"
| "scan [] (Some acc) = Lit (CHR ''{'') # map Lit acc"
| "scan (c # cs) None = (if c = CHR ''{'' then scan cs (Some []) else Lit c # scan cs None)"
| "scan (c # cs) (Some acc) =
     (if c = CHR ''}'' then Slot acc # scan cs None else scan cs (Some (acc @ [c])))"

text \<open>
  Modelled from the spec: \<open>slotNames[i]\<close> is the identifier inside the \<open>i\<close>-th placeholder
  of the template, left to right.
\<close>

fun slotNames :: "token list \<Rightarrow> string list" where
  "slotNames [] = []"
| "slotNames (Lit c # ts) = slotNames ts"
| "slotNames (Slot n # ts) = n # slotNames ts"

text \<open>
  Modelled from the spec: matching a compiled template against a whole request path. A
  literal matches itself; a slot captures a non-empty run of characters other than
  \<^verbatim>\<open>/\<close>, the shortest one after which the rest of the template matches. The result is
  the list of captured substrings, one per slot.
\<close>

fun matchTokens :: "token list \<Rightarrow> string \<Rightarrow> string list option"
  and matchSlot :: "token list \<Rightarrow> string \<Rightarrow> string \<Rightarrow> string list option" where
  "matchTokens [] s = (if s = [] then Some [] else None)"
| "matchTokens (Lit c # ts) [] = None"
| "matchTokens (Lit c # ts) (d # s) = (if d = c then matchTokens ts s else None)"
| "matchTokens (Slot n # ts) s = matchSlot ts [] s"
| "matchSlot ts acc [] = None"
| "matchSlot ts acc (d # s) =
     (if d = CHR ''/'' then None
      else case matchTokens ts s of
             Some caps \<Rightarrow> Some ((acc @ [d]) # caps)
           | None \<Rightarrow> matchSlot ts (acc @ [d]) s)"

text \<open>
  Modelled from the spec: the string form of a compiled pattern, which
  \<^verbatim>\<open>re.toString()\<close> returns. A slot is written as an unnamed capture group, so the
  string does not depend on the placeholder's identifier; a literal that is special in a
  regular expression is escaped.
\<close>

definition renderToken :: "token \<Rightarrow> string" where
  "renderToken t =
     (case t of
        Lit c \<Rightarrow> if c \<in> set ''/.+*?=^!:${}()[]|'' \<or> c = CHR 0x5C then [CHR 0x5C, c] else [c]
      | Slot n \<Rightarrow> ''([^'' @ [CHR 0x5C] @ ''/]+?)'')"

text \<open>Modelled from the spec: see \<open>renderToken\<close>.\<close>

definition reSource :: "token list \<Rightarrow> string" where
  "reSource ts = ''/^'' @ concat (map renderToken ts) @ ''$/''"

text \<open>
  Modelled from the spec: \<open>compile(basePrefix, template)\<close> concatenates the base prefix
  (possibly absent) with the template and compiles the result.
\<close>

definition specCompile :: compile where
  "specCompile bp template =
     (let ts = scan ((case bp of None \<Rightarrow> [] | Some b \<Rightarrow> b) @ template) None
      in (\<lparr>toString = reSource ts,
           exec = (\<lambda>s. map_option (\<lambda>caps. Some s # map Some caps) (matchTokens ts s))\<rparr>,
          slotNames ts))"

section \<open>Notions the claims are stated with\<close>

text \<open>
  A declaration asks for request data that is not there: its location, after the default
  of \<^verbatim>\<open>param.in || 'query'\<close>, is \<^verbatim>\<open>query\<close> and the request has no parsed query, or it is
  \<^verbatim>\<open>body\<close> or \<^verbatim>\<open>formData\<close> and the request has no parsed body.
\<close>

definition requiresMissing :: "request \<Rightarrow> param \<Rightarrow> bool" where
  "requiresMissing req p =
     ((paramType p = ''query'' \<and> query req = None) \<or>
      ((paramType p = ''body'' \<or> paramType p = ''formData'') \<and> body req = None))"

text \<open>
  From the spec, section 8: the concrete instantiation of a template replaces each
  placeholder, in order, by a value and keeps the literal text.
\<close>

fun instantiate :: "token list \<Rightarrow> string list \<Rightarrow> string" where
  "instantiate [] vs = []"
| "instantiate (Lit c # ts) vs = c # instantiate ts vs"
| "instantiate (Slot n # ts) [] = instantiate ts []"
| "instantiate (Slot n # ts) (v # vs) = v @ instantiate ts vs"

text \<open>
  Every placeholder of the template ends a path segment: it is followed by \<^verbatim>\<open>/\<close> or by
  the end of the template.
\<close>

fun delimited :: "token list \<Rightarrow> bool" where
  "delimited [] = True"
| "delimited (Lit c # ts) = delimited ts"
| "delimited (Slot n # ts) =
     ((case ts of [] \<Rightarrow> True | t # ts' \<Rightarrow> t = Lit (CHR ''/'')) \<and> delimited ts)"

section \<open>Example descriptions and requests\<close>

text \<open>
  The description of the spec's example: base path \<^verbatim>\<open>/v1\<close>, one path
  \<^verbatim>\<open>/pets/{petId}\<close> with the shared declaration \<^verbatim>\<open>petId\<close>, a \<^verbatim>\<open>get\<close> operation with
  an optional \<^verbatim>\<open>limit\<close> and a \<^verbatim>\<open>put\<close> operation with a body.
\<close>

definition petIdParam :: param where
  "petIdParam = \<lparr>oid = 1, name = ''petId'', in' = Some ''path'', param.schema = None\<rparr>"

definition limitParam :: param where
  "limitParam = \<lparr>oid = 2, name = ''limit'', in' = None,
                  param.schema = Some \<lparr>default' = Some (JNumber 20)\<rparr>\<rparr>"

definition petBodyParam :: param where
  "petBodyParam = \<lparr>oid = 3, name = ''pet'', in' = Some ''body'', param.schema = None\<rparr>"

definition ownerParam :: param where
  "ownerParam = \<lparr>oid = 4, name = ''ownerId'', in' = Some ''path'', param.schema = None\<rparr>"

definition getPet :: operation where
  "getPet = \<lparr>operationId = ''getPet'', operation.parameters = Some [limitParam]\<rparr>"

definition putPet :: operation where
  "putPet = \<lparr>operationId = ''updatePet'', operation.parameters = Some [petBodyParam]\<rparr>"

definition petItem :: pathItem where
  "petItem = \<lparr>pathItem.parameters = Some [petIdParam],
               methodProps = [(''get'', getPet), (''put'', putPet)]\<rparr>"

definition petstore :: swaggerObject where
  "petstore = \<lparr>basePath = Some ''/v1'', paths = [(''/pets/{petId}'', petItem)]\<rparr>"

definition petRoute :: route where
  "petRoute = routeOf specCompile (Some ''/v1'') ''/pets/{petId}'' petItem"

definition petMatch :: match where
  "petMatch = [Some ''/v1/pets/42'', Some ''42'']"

definition getPet42 :: request where
  "getPet42 = \<lparr>url = ''/v1/pets/42'', method = ''GET'', query = Some [], headers = [],
                body = None, swagger = None\<rparr>"

definition getPet42Limit :: request where
  "getPet42Limit = \<lparr>url = ''/v1/pets/42?limit=5'', method = ''GET'',
                     query = Some [(''limit'', JString ''5'')], headers = [],
                     body = None, swagger = None\<rparr>"

definition putPet42 :: request where
  "putPet42 = \<lparr>url = ''/v1/pets/42'', method = ''PUT'', query = None, headers = [],
                body = None, swagger = None\<rparr>"

definition deletePet42 :: request where
  "deletePet42 = \<lparr>url = ''/v1/pets/42'', method = ''DELETE'', query = None, headers = [],
                   body = None, swagger = None\<rparr>"

definition constructorPet42 :: request where
  "constructorPet42 = \<lparr>url = ''/v1/pets/42'', method = ''CONSTRUCTOR'', query = None,
                        headers = [], body = None, swagger = None\<rparr>"

definition getUnknown :: request where
  "getUnknown = \<lparr>url = ''/unknown'', method = ''GET'', query = None, headers = [],
                  body = None, swagger = None\<rparr>"

text \<open>
  A path that declares \<^verbatim>\<open>id\<close> with \<^verbatim>\<open>in: path\<close> and whose \<^verbatim>\<open>get\<close> operation declares
  \<^verbatim>\<open>id\<close> again with \<^verbatim>\<open>in: query\<close>.
\<close>

definition idPathParam :: param where
  "idPathParam = \<lparr>oid = 6, name = ''id'', in' = Some ''path'', param.schema = None\<rparr>"

definition idQueryParam :: param where
  "idQueryParam = \<lparr>oid = 7, name = ''id'', in' = Some ''query'', param.schema = None\<rparr>"

definition getById :: operation where
  "getById = \<lparr>operationId = ''getById'', operation.parameters = Some [idQueryParam]\<rparr>"

definition idItem :: pathItem where
  "idItem = \<lparr>pathItem.parameters = Some [idPathParam], methodProps = [(''get'', getById)]\<rparr>"

definition idStore :: swaggerObject where
  "idStore = \<lparr>basePath = None, paths = [(''/pets/{id}'', idItem)]\<rparr>"

definition getId :: request where
  "getId = \<lparr>url = ''/pets/42?id=7'', method = ''GET'',
             query = Some [(''id'', JString ''7'')], headers = [], body = None, swagger = None\<rparr>"

text \<open>Two path items that differ, for descriptions with overlapping templates.\<close>

definition opA :: operation where
  "opA = \<lparr>operationId = ''getPetById'', operation.parameters = None\<rparr>"

definition opB :: operation where
  "opB = \<lparr>operationId = ''getOther'', operation.parameters = None\<rparr>"

definition itemA :: pathItem where
  "itemA = \<lparr>pathItem.parameters = None, methodProps = [(''get'', opA)]\<rparr>"

definition itemB :: pathItem where
  "itemB = \<lparr>pathItem.parameters = None, methodProps = [(''get'', opB)]\<rparr>"

definition samePatternStore :: swaggerObject where
  "samePatternStore =
     \<lparr>basePath = None, paths = [(''/pets/{petId}'', itemA), (''/pets/{id}'', itemB)]\<rparr>"

definition overlapStore :: swaggerObject where
  "overlapStore =
     \<lparr>basePath = None, paths = [(''/pets/{petId}'', itemA), (''/pets/mine'', itemB)]\<rparr>"

definition getPets42 :: request where
  "getPets42 = \<lparr>url = ''/pets/42'', method = ''GET'', query = None, headers = [],
                 body = None, swagger = None\<rparr>"

text \<open>A declaration whose \<^verbatim>\<open>in\<close> is none of the five locations.\<close>

definition cookieParam :: param where
  "cookieParam = \<lparr>oid = 5, name = ''session'', in' = Some ''cookie'', param.schema = None\<rparr>"

definition login :: operation where
  "login = \<lparr>operationId = ''login'', operation.parameters = Some [cookieParam]\<rparr>"

definition loginItem :: pathItem where
  "loginItem = \<lparr>pathItem.parameters = None, methodProps = [(''get'', login)]\<rparr>"

definition loginStore :: swaggerObject where
  "loginStore = \<lparr>basePath = None, paths = [(''/login'', loginItem)]\<rparr>"

definition getLogin :: request where
  "getLogin = \<lparr>url = ''/login'', method = ''GET'', query = None, headers = [],
                body = None, swagger = None\<rparr>"

text \<open>A template that uses the placeholder \<^verbatim>\<open>id\<close> twice.\<close>

definition readLink :: operation where
  "readLink = \<lparr>operationId = ''readLink'', operation.parameters = None\<rparr>"

definition linkItem :: pathItem where
  "linkItem = \<lparr>pathItem.parameters = Some [idPathParam], methodProps = [(''get'', readLink)]\<rparr>"

definition linkStore :: swaggerObject where
  "linkStore = \<lparr>basePath = Some ''/v1'', paths = [(''/a/{id}/b/{id}'', linkItem)]\<rparr>"

definition getLink :: request where
  "getLink = \<lparr>url = ''/v1/a/1/b/2'', method = ''GET'', query = None, headers = [],
               body = None, swagger = None\<rparr>"

section \<open>Evaluating the model on the examples\<close>

lemmas model_defs =
  swaggerMetadataMiddleware_def swaggerMetadata_def routeOf_def methodNames_def pathname_def
  newMetadata_def toLowerCase_def lower_char_def lodash_union_def baseFlatten_def
  resolveParam_def getValue_def paramType_def matchAt_def useDefault_def
  specCompile_def reSource_def renderToken_def bodyError_def queryError_def Let_def
  getProperty_def objectPrototype_def operationParameters_def

lemma petstore_find:
  "findPath (gatherPaths specCompile (basePath petstore) (paths petstore) []) ''/v1/pets/42'' =
     Some (petRoute, petMatch)"
  by (simp add: model_defs petstore_def petRoute_def petMatch_def)

lemma petRoute_operations: "operations petRoute = [(''get'', getPet), (''put'', putPet)]"
  by (simp add: model_defs petRoute_def petItem_def)

lemma petRoute_path: "route.path petRoute = petItem"
  by (simp add: model_defs petRoute_def)

lemma petRoute_keys: "keys petRoute = [''petId'']"
  by (simp add: model_defs petRoute_def)

lemma put_declarations:
  "lodash_union (pathItem.parameters (route.path petRoute)) (operation.parameters putPet) =
     [petIdParam, petBodyParam]"
  by (simp add: petRoute_path petItem_def putPet_def lodash_union_def baseFlatten_def
      petIdParam_def petBodyParam_def)

text \<open>
  The example of the spec, section 8: \<^verbatim>\<open>GET /v1/pets/42\<close> resolves \<^verbatim>\<open>petId\<close> from the
  path and \<^verbatim>\<open>limit\<close> from its default.
\<close>

lemma petstore_example:
  "swaggerMetadataMiddleware specCompile petstore getPet42 =
     (getPet42\<lparr>swagger := Some \<lparr>metadata.path = Some petItem, operation = Some (Own getPet),
        params = [(''petId'', \<lparr>schema = petIdParam, value = Some (JString ''42'')\<rparr>),
                  (''limit'', \<lparr>schema = limitParam, value = Some (JNumber 20)\<rparr>)],
        swaggerObject = petstore\<rparr>\<rparr>, None)"
  by (simp add: model_defs petstore_def getPet42_def petItem_def getPet_def putPet_def
      petIdParam_def limitParam_def)

section \<open>The resolver\<close>

lemma getValue_swagger: "getValue rt m (req\<lparr>swagger := x\<rparr>) p = getValue rt m req p"
  by (simp add: getValue_def Let_def split: option.splits)

lemma resolveParam_swagger: "resolveParam rt m (req\<lparr>swagger := x\<rparr>) p = resolveParam rt m req p"
  by (simp add: resolveParam_def getValue_swagger)

lemma eachParam_swagger: "eachParam rt m (req\<lparr>swagger := x\<rparr>) ds ps = eachParam rt m req ds ps"
  by (induction ds arbitrary: ps) (simp_all add: resolveParam_swagger split: sum.splits)

lemma newMetadata_swagger: "newMetadata so found (req\<lparr>swagger := x\<rparr>) = newMetadata so found req"
  by (simp add: newMetadata_def split: option.splits)

lemma getProperty_own: "map_of obj k = Some v \<Longrightarrow> getProperty obj k = Some (Own v)"
  by (simp add: getProperty_def)

lemma getProperty_undefined:
  "map_of obj k = None \<Longrightarrow> k \<notin> set objectPrototype \<Longrightarrow> getProperty obj k = None"
  by (simp add: getProperty_def)

lemma swaggerMetadata_twice:
  "swaggerMetadata table so (fst (swaggerMetadata table so req)) = swaggerMetadata table so req"
  unfolding swaggerMetadata_def Let_def
  by (auto split: option.splits prod.splits simp: eachParam_swagger newMetadata_swagger)

lemma getValue_error: "(\<exists>e. getValue rt m req p = Inl e) = requiresMissing req p"
  by (auto simp: getValue_def requiresMissing_def Let_def split: option.splits)

lemma getValue_error_kind: "getValue rt m req p = Inl e \<Longrightarrow> e = queryError \<or> e = bodyError"
  by (auto simp: getValue_def Let_def split: option.splits if_splits)

lemma resolveParam_error: "(resolveParam rt m req p = Inl e) = (getValue rt m req p = Inl e)"
  by (simp add: resolveParam_def split: sum.splits)

lemma eachParam_error:
  "(\<exists>e. snd (eachParam rt m req ds ps) = Some e) = (\<exists>p \<in> set ds. requiresMissing req p)"
proof (induction ds arbitrary: ps)
  case Nil
  show ?case by simp
next
  case (Cons p ds)
  show ?case
  proof (cases "resolveParam rt m req p")
    case (Inl e)
    then have "requiresMissing req p"
      using getValue_error [of rt m req p] by (auto simp: resolveParam_error)
    with Inl show ?thesis by simp
  next
    case (Inr entry)
    then have "\<not> requiresMissing req p"
      using getValue_error [of rt m req p] by (auto simp: resolveParam_def split: sum.splits)
    with Inr Cons.IH show ?thesis by simp
  qed
qed

lemma eachParam_error_kind:
  "snd (eachParam rt m req ds ps) = Some e \<Longrightarrow> e = queryError \<or> e = bodyError"
proof (induction ds arbitrary: ps)
  case Nil
  then show ?case by simp
next
  case (Cons p ds)
  then show ?case
    by (auto split: sum.splits simp: resolveParam_error dest: getValue_error_kind)
qed

lemma eachKey_absent: "n \<notin> set ks \<Longrightarrow> eachKey ks index m n val = val"
  by (induction ks arbitrary: index val) auto

lemma eachKey_last:
  "i < length ks \<Longrightarrow> ks ! i = n \<Longrightarrow> n \<notin> set (drop (Suc i) ks) \<Longrightarrow>
     eachKey ks index m n val = matchAt m (index + i + 1)"
proof (induction ks arbitrary: index val i)
  case Nil
  then show ?case by simp
next
  case (Cons k ks)
  show ?case
  proof (cases i)
    case 0
    with Cons.prems show ?thesis by (simp add: eachKey_absent)
  next
    case (Suc j)
    with Cons.prems Cons.IH [of j "index + 1"] show ?thesis by simp
  qed
qed

lemma matchAt_capture:
  "i < length vals \<Longrightarrow> matchAt (Some whole # map Some vals) (i + 1) = Some (JString (vals ! i))"
  by (simp add: matchAt_def)

section \<open>The route table\<close>

lemma set_update_subset: "set (AList.update k v al) \<subseteq> insert (k, v) (set al)"
  by (induction al) auto

lemma update_fresh: "k \<notin> fst ` set al \<Longrightarrow> AList.update k v al = al @ [(k, v)]"
  by (induction al) auto


lemma routeOf_simps:
  "re (routeOf cmp bp n p) = fst (cmp bp n)"
  "keys (routeOf cmp bp n p) = snd (cmp bp n)"
  "route.path (routeOf cmp bp n p) = p"
  "operations (routeOf cmp bp n p) = gatherOperations p methodNames []"
  by (simp_all add: routeOf_def split: prod.splits)

lemma gatherOperations_map_of:
  "map_of (gatherOperations p ms ops) k =
     (if k \<in> set ms \<and> map_of (methodProps p) k \<noteq> None then map_of (methodProps p) k
      else map_of ops k)"
  by (induction ms arbitrary: ops) (auto simp: AList.update_conv' split: option.splits)


text \<open>Every entry of the table is keyed by the string of its own pattern.\<close>

lemma gatherPaths_routes:
  "(k, rt) \<in> set (gatherPaths cmp bp ps t) \<Longrightarrow>
     (k, rt) \<in> set t \<or> (\<exists>(n, p) \<in> set ps. k = toString (fst (cmp bp n)) \<and> rt = routeOf cmp bp n p)"
proof (induction ps arbitrary: t)
  case Nil
  then show ?case by simp
next
  case (Cons e ps)
  obtain n p where e: "e = (n, p)" by (cases e)
  let ?t' = "AList.update (toString (fst (cmp bp n))) (routeOf cmp bp n p) t"
  from Cons.prems e have "(k, rt) \<in> set (gatherPaths cmp bp ps ?t')"
    by (simp add: Let_def routeOf_simps)
  from Cons.IH [OF this] show ?case
    using set_update_subset [of "toString (fst (cmp bp n))" "routeOf cmp bp n p" t] e
    by auto
qed



text \<open>When no two templates share a pattern string, the table lists the paths as declared.\<close>

lemma gatherPaths_fresh:
  "distinct (map fst t @ map (\<lambda>(n, p). toString (fst (cmp bp n))) ps) \<Longrightarrow>
     gatherPaths cmp bp ps t = t @ map (\<lambda>(n, p). (toString (fst (cmp bp n)), routeOf cmp bp n p)) ps"
proof (induction ps arbitrary: t)
  case Nil
  then show ?case by simp
next
  case (Cons e ps)
  obtain n p where e: "e = (n, p)" by (cases e)
  let ?k = "toString (fst (cmp bp n))"
  from Cons.prems e have fresh: "?k \<notin> fst ` set t" by auto
  then have upd: "AList.update ?k (routeOf cmp bp n p) t = t @ [(?k, routeOf cmp bp n p)]"
    by (rule update_fresh)
  from Cons.prems e have "distinct (map fst (t @ [(?k, routeOf cmp bp n p)]) @
      map (\<lambda>(n, p). toString (fst (cmp bp n))) ps)"
    by auto
  from Cons.IH [OF this] upd e show ?case by (simp add: Let_def routeOf_simps)
qed

lemma findPath_None: "\<forall>(k, rt) \<in> set t. exec (re rt) rPath = None \<Longrightarrow> findPath t rPath = None"
  by (induction t) auto

lemma findPath_Some:
  "findPath t rPath = Some (rt, m) \<Longrightarrow> \<exists>k. (k, rt) \<in> set t \<and> exec (re rt) rPath = Some m"
  by (induction t) (auto split: option.splits)

lemma findPath_append:
  "\<forall>(k, rt) \<in> set xs. exec (re rt) rPath = None \<Longrightarrow> findPath (xs @ ys) rPath = findPath ys rPath"
  by (induction xs) auto

section \<open>The template matcher\<close>

lemma scan_literal_prefix:
  "CHR ''{'' \<notin> set pre \<Longrightarrow> scan (pre @ t) None = map Lit pre @ scan t None"
  by (induction pre) auto

lemma slotNames_literals: "slotNames (map Lit pre @ ts) = slotNames ts"
  by (induction pre) auto

lemma matchTokens_literals: "matchTokens (map Lit pre @ ts) (pre @ s) = matchTokens ts s"
  by (induction pre) auto

text \<open>
  After a slot that ends a segment, the rest of the template cannot start inside a value:
  the shorter captures fail, and the slot takes the whole value.
\<close>

lemma matchTokens_after_slot:
  assumes "case ts of [] \<Rightarrow> True | t # ts' \<Rightarrow> t = Lit (CHR ''/'')"
    and "v \<noteq> []" and "CHR ''/'' \<notin> set v"
  shows "matchTokens ts (v @ s) = None"
proof (cases ts)
  case Nil
  with assms(2) show ?thesis by simp
next
  case (Cons t ts')
  with assms(1) have t: "t = Lit (CHR ''/'')" by simp
  from assms(2) obtain d v' where v: "v = d # v'" by (cases v) auto
  with assms(3) have "d \<noteq> CHR ''/''" by auto
  with Cons t v show ?thesis by simp
qed

lemma matchSlot_value:
  assumes "case ts of [] \<Rightarrow> True | t # ts' \<Rightarrow> t = Lit (CHR ''/'')"
    and "matchTokens ts s = Some caps"
  shows "v \<noteq> [] \<Longrightarrow> CHR ''/'' \<notin> set v \<Longrightarrow> matchSlot ts acc (v @ s) = Some ((acc @ v) # caps)"
proof (induction v arbitrary: acc)
  case Nil
  then show ?case by simp
next
  case (Cons d v)
  from Cons.prems have d: "d \<noteq> CHR ''/''" and v: "CHR ''/'' \<notin> set v" by auto
  show ?case
  proof (cases "v = []")
    case True
    with d assms(2) show ?thesis by simp
  next
    case False
    have "matchTokens ts (v @ s) = None"
      using assms(1) False v by (rule matchTokens_after_slot)
    with d Cons.IH [OF False v, of "acc @ [d]"] show ?thesis by simp
  qed
qed

lemma matchTokens_instantiate:
  "delimited ts \<Longrightarrow> length vs = length (slotNames ts) \<Longrightarrow>
   \<forall>v \<in> set vs. v \<noteq> [] \<and> CHR ''/'' \<notin> set v \<Longrightarrow>
   matchTokens ts (instantiate ts vs) = Some vs"
proof (induction ts arbitrary: vs)
  case Nil
  then show ?case by simp
next
  case (Cons t ts)
  show ?case
  proof (cases t)
    case (Lit c)
    with Cons show ?thesis by simp
  next
    case (Slot n)
    with Cons.prems obtain v vs' where vs: "vs = v # vs'" by (cases vs) auto
    from Cons.prems Slot vs have rest: "matchTokens ts (instantiate ts vs') = Some vs'"
      by (intro Cons.IH) auto
    from Cons.prems Slot vs
    have "matchSlot ts [] (v @ instantiate ts vs') = Some (([] @ v) # vs')"
      by (intro matchSlot_value rest) auto
    with Slot vs show ?thesis by simp
  qed
qed

section \<open>The claims\<close>

subsection \<open>C1: a name declared at both scopes\<close>

text \<open>
  Claim C1 says that when a path and its operation both declare a parameter of the same
  name, the entry of \<^verbatim>\<open>params\<close> for that name carries the path-level declaration and a
  value read from the path-level location. The handler stores the entries under
  \<^verbatim>\<open>param.name\<close> in the order of \<^verbatim>\<open>_.union\<close>, path-level first, so the operation-level
  declaration is stored last and replaces the path-level one. For the path
  \<^verbatim>\<open>/pets/{id}\<close> with \<^verbatim>\<open>id\<close> declared \<^verbatim>\<open>in: path\<close> on the path and \<^verbatim>\<open>in: query\<close> on
  \<^verbatim>\<open>get\<close>, the request \<^verbatim>\<open>GET /pets/42?id=7\<close> gets the query declaration and the value
  \<^verbatim>\<open>7\<close>, not the path declaration and \<^verbatim>\<open>42\<close>.
\<close>

theorem operation_declaration_replaces_shared:
  "swaggerMetadataMiddleware specCompile idStore getId =
     (getId\<lparr>swagger := Some \<lparr>metadata.path = Some idItem, operation = Some (Own getById),
        params = [(''id'', \<lparr>schema = idQueryParam, value = Some (JString ''7'')\<rparr>)],
        swaggerObject = idStore\<rparr>\<rparr>, None)"
  by (simp add: model_defs idStore_def getId_def idItem_def getById_def idPathParam_def
      idQueryParam_def)

subsection \<open>C2: first match wins\<close>

text \<open>
  Claim C2, as amended: in a description whose path templates compile to pairwise
  different pattern strings, the route table lists the patterns in declaration order, and
  a request path selects the route of the first declared template whose pattern matches
  it, whichever later templates match as well.
\<close>

theorem first_declared_route_selected:
  assumes "distinct (map (\<lambda>(n, p). toString (fst (cmp (basePath so) n))) (paths so))"
    and "paths so = xs @ (a, pa) # rest"
    and "\<forall>(n, p) \<in> set xs. exec (fst (cmp (basePath so) n)) rPath = None"
    and "exec (fst (cmp (basePath so) a)) rPath = Some m"
  shows "map fst (gatherPaths cmp (basePath so) (paths so) []) =
           map (\<lambda>(n, p). toString (fst (cmp (basePath so) n))) (paths so) \<and>
         findPath (gatherPaths cmp (basePath so) (paths so) []) rPath =
           Some (routeOf cmp (basePath so) a pa, m)"
proof -
  let ?bp = "basePath so"
  let ?e = "\<lambda>(n, p). (toString (fst (cmp ?bp n)), routeOf cmp ?bp n p)"
  have tab: "gatherPaths cmp ?bp (paths so) [] = map ?e (paths so)"
    using gatherPaths_fresh [of "[]" cmp ?bp "paths so"] assms(1) by simp
  have keys: "map fst (map ?e (paths so)) = map (\<lambda>(n, p). toString (fst (cmp ?bp n))) (paths so)"
    by (simp add: case_prod_unfold comp_def)
  have "\<forall>(k, rt) \<in> set (map ?e xs). exec (re rt) rPath = None"
    using assms(3) by (auto simp: routeOf_simps)
  then have "findPath (map ?e xs @ map ?e ((a, pa) # rest)) rPath = findPath (map ?e ((a, pa) # rest)) rPath"
    by (rule findPath_append)
  then have "findPath (map ?e (paths so)) rPath = Some (routeOf cmp ?bp a pa, m)"
    using assms(2) assms(4) by (simp add: routeOf_simps)
  with tab keys show ?thesis by simp
qed

theorem first_declared_route_selected_witness:
  "distinct (map (\<lambda>(n, p). toString (fst (specCompile (basePath overlapStore) n))) (paths overlapStore)) \<and>
   paths overlapStore = [] @ (''/pets/{petId}'', itemA) # [(''/pets/mine'', itemB)] \<and>
   exec (fst (specCompile (basePath overlapStore) ''/pets/{petId}'')) ''/pets/mine'' =
     Some [Some ''/pets/mine'', Some ''mine''] \<and>
   exec (fst (specCompile (basePath overlapStore) ''/pets/mine'')) ''/pets/mine'' =
     Some [Some ''/pets/mine''] \<and>
   findPath (gatherPaths specCompile (basePath overlapStore) (paths overlapStore) []) ''/pets/mine'' =
     Some (routeOf specCompile (basePath overlapStore) ''/pets/{petId}'' itemA,
           [Some ''/pets/mine'', Some ''mine''])"
proof -
  have d: "distinct (map (\<lambda>(n, p). toString (fst (specCompile (basePath overlapStore) n)))
      (paths overlapStore))"
    by (simp add: overlapStore_def specCompile_def reSource_def renderToken_def)
  have p: "paths overlapStore = [] @ (''/pets/{petId}'', itemA) # [(''/pets/mine'', itemB)]"
    by (simp add: overlapStore_def)
  have n: "\<forall>(n, p) \<in> set []. exec (fst (specCompile (basePath overlapStore) n)) ''/pets/mine'' = None"
    by simp
  have a: "exec (fst (specCompile (basePath overlapStore) ''/pets/{petId}'')) ''/pets/mine'' =
     Some [Some ''/pets/mine'', Some ''mine'']"
    by (simp add: overlapStore_def specCompile_def Let_def)
  have b: "exec (fst (specCompile (basePath overlapStore) ''/pets/mine'')) ''/pets/mine'' =
     Some [Some ''/pets/mine'']"
    by (simp add: overlapStore_def specCompile_def Let_def)
  from first_declared_route_selected [where cmp = specCompile and so = overlapStore and xs = "[]"
      and a = "''/pets/{petId}''" and pa = itemA and rest = "[(''/pets/mine'', itemB)]"
      and rPath = "''/pets/mine''", OF d p n a]
    d p a b
  show ?thesis by simp
qed

text \<open>
  Claim C2 as stated fails when two templates compile to the same pattern string: the
  description declares \<^verbatim>\<open>/pets/{petId}\<close> (item A) and then \<^verbatim>\<open>/pets/{id}\<close> (item B), both
  patterns match \<^verbatim>\<open>/pets/42\<close>, and the request is given B's path item and operation.
\<close>

theorem same_pattern_selects_later_route:
  "paths samePatternStore = [(''/pets/{petId}'', itemA), (''/pets/{id}'', itemB)] \<and>
   exec (fst (specCompile (basePath samePatternStore) ''/pets/{petId}'')) (pathname (url getPets42)) =
     Some [Some ''/pets/42'', Some ''42''] \<and>
   exec (fst (specCompile (basePath samePatternStore) ''/pets/{id}'')) (pathname (url getPets42)) =
     Some [Some ''/pets/42'', Some ''42''] \<and>
   itemA \<noteq> itemB \<and>
   swaggerMetadataMiddleware specCompile samePatternStore getPets42 =
     (getPets42\<lparr>swagger := Some \<lparr>metadata.path = Some itemB, operation = Some (Own opB),
        params = [], swaggerObject = samePatternStore\<rparr>\<rparr>, None)"
  by (simp add: model_defs samePatternStore_def getPets42_def itemA_def itemB_def opA_def opB_def)

subsection \<open>C3: the location of a declaration without a known \<^verbatim>\<open>in\<close>\<close>

text \<open>
  Claim C3, as amended: a declaration whose \<^verbatim>\<open>in\<close> is absent or the empty string is
  resolved as a query parameter: its value is \<^verbatim>\<open>req.query[name]\<close>, and the configuration
  error for the query is thrown when the request has no parsed query. A declaration whose
  \<^verbatim>\<open>in\<close> is any other string outside the five locations reads no source at all: its
  value stays undefined before defaulting, and no error is thrown, with or without a
  parsed query.
\<close>

theorem absent_in_is_query_unknown_in_reads_nothing:
  "(in' p = None \<or> in' p = Some [] \<longrightarrow>
      getValue rt m req p =
        (case query req of None \<Rightarrow> Inl queryError | Some q \<Rightarrow> Inr (map_of q (name p)))) \<and>
   (in' p = Some t \<and> t \<notin> set [[], ''path'', ''query'', ''header'', ''body'', ''formData''] \<longrightarrow>
      getValue rt m req p = Inr None)"
  by (auto simp: getValue_def paramType_def Let_def)

theorem absent_in_is_query_unknown_in_reads_nothing_witness:
  "in' limitParam = None \<and>
   getValue petRoute petMatch getPet42Limit limitParam = Inr (Some (JString ''5'')) \<and>
   getValue petRoute petMatch putPet42 limitParam = Inl queryError \<and>
   in' cookieParam = Some ''cookie'' \<and>
   getValue petRoute petMatch getPet42Limit cookieParam = Inr None \<and>
   getValue petRoute petMatch putPet42 cookieParam = Inr None"
  using absent_in_is_query_unknown_in_reads_nothing
      [where p = limitParam and rt = petRoute and m = petMatch and req = getPet42Limit]
    absent_in_is_query_unknown_in_reads_nothing
      [where p = limitParam and rt = petRoute and m = petMatch and req = putPet42]
    absent_in_is_query_unknown_in_reads_nothing
      [where p = cookieParam and t = "''cookie''" and rt = petRoute and m = petMatch
        and req = getPet42Limit]
    absent_in_is_query_unknown_in_reads_nothing
      [where p = cookieParam and t = "''cookie''" and rt = petRoute and m = petMatch
        and req = putPet42]
  by (simp add: limitParam_def cookieParam_def getPet42Limit_def putPet42_def)

text \<open>
  Claim C3 as stated fails for \<^verbatim>\<open>in: cookie\<close>: on a request without a parsed query the
  claim asks for a configuration error, and the handler calls \<^verbatim>\<open>next()\<close> without one and
  attaches the entry with an undefined value.
\<close>

theorem unknown_in_without_query_no_error:
  "in' cookieParam = Some ''cookie'' \<and> query getLogin = None \<and>
   swaggerMetadataMiddleware specCompile loginStore getLogin =
     (getLogin\<lparr>swagger := Some \<lparr>metadata.path = Some loginItem, operation = Some (Own login),
        params = [(''session'', \<lparr>schema = cookieParam, value = None\<rparr>)],
        swaggerObject = loginStore\<rparr>\<rparr>, None)"
  by (simp add: model_defs loginStore_def getLogin_def loginItem_def login_def cookieParam_def)

subsection \<open>C4: when resolution throws\<close>

text \<open>
  Claim C4: for a matched route and operation, the handler passes an error to \<^verbatim>\<open>next\<close>
  if and only if some declaration of the union asks for request data that is missing
  (location \<^verbatim>\<open>query\<close>, which an absent \<^verbatim>\<open>in\<close> means too, without a parsed query, or
  \<^verbatim>\<open>body\<close> or \<^verbatim>\<open>formData\<close> without a parsed body). In every other case the loop
  completes and the metadata is attached; the error is one of the two configuration
  errors.
\<close>

theorem configuration_error_iff_missing_data:
  assumes "findPath table (pathname (url req)) = Some (rt, m)"
    and "map_of (operations rt) (toLowerCase (method req)) = Some opn"
  shows "((\<exists>msg. snd (swaggerMetadata table so req) = Some msg) =
           (\<exists>p \<in> set (lodash_union (pathItem.parameters (route.path rt)) (operation.parameters opn)).
              requiresMissing req p)) \<and>
         (snd (swaggerMetadata table so req) = None \<longrightarrow>
            swagger (fst (swaggerMetadata table so req)) \<noteq> None) \<and>
         (\<forall>msg. snd (swaggerMetadata table so req) = Some msg \<longrightarrow>
            msg = message queryError \<or> msg = message bodyError)"
proof -
  let ?ds = "lodash_union (pathItem.parameters (route.path rt)) (operation.parameters opn)"
  obtain ps err where ep: "eachParam rt m req ?ds [] = (ps, err)"
    by (cases "eachParam rt m req ?ds []")
  have sm: "swaggerMetadata table so req =
      (case err of Some e \<Rightarrow> (req, Some (message e))
       | None \<Rightarrow> (req\<lparr>swagger := Some ((newMetadata so (Some (rt, m)) req)\<lparr>params := ps\<rparr>)\<rparr>, None))"
    using assms ep
    by (simp add: swaggerMetadata_def Let_def newMetadata_def getProperty_own operationParameters_def
        split: option.splits)
  have e1: "(\<exists>e. err = Some e) = (\<exists>p \<in> set ?ds. requiresMissing req p)"
    using eachParam_error [of rt m req ?ds "[]"] ep by simp
  have e2: "err = Some e \<Longrightarrow> e = queryError \<or> e = bodyError" for e
    using eachParam_error_kind [of rt m req ?ds "[]" e] ep by simp
  show ?thesis
  proof (cases err)
    case None
    with sm e1 show ?thesis by simp
  next
    case (Some e)
    with sm e1 e2 [of e] show ?thesis by auto
  qed
qed

theorem configuration_error_iff_missing_data_witness:
  "findPath (gatherPaths specCompile (basePath petstore) (paths petstore) []) (pathname (url putPet42)) =
     Some (petRoute, petMatch) \<and>
   map_of (operations petRoute) (toLowerCase (method putPet42)) = Some putPet \<and>
   requiresMissing putPet42 petBodyParam \<and>
   snd (swaggerMetadata (gatherPaths specCompile (basePath petstore) (paths petstore) [])
          petstore putPet42) \<noteq> None"
proof -
  let ?t = "gatherPaths specCompile (basePath petstore) (paths petstore) []"
  have f: "findPath ?t (pathname (url putPet42)) = Some (petRoute, petMatch)"
    using petstore_find by (simp add: putPet42_def pathname_def)
  have o: "map_of (operations petRoute) (toLowerCase (method putPet42)) = Some putPet"
    by (simp add: petRoute_operations putPet42_def toLowerCase_def lower_char_def)
  have r: "requiresMissing putPet42 petBodyParam"
    by (simp add: requiresMissing_def paramType_def petBodyParam_def putPet42_def)
  from configuration_error_iff_missing_data [OF f o, of petstore] put_declarations r
  have "snd (swaggerMetadata ?t petstore putPet42) \<noteq> None" by auto
  with f o r show ?thesis by simp
qed

subsection \<open>C5: a throw aborts the resolution\<close>

text \<open>
  Claim C5: when the loop over the declarations throws, the handler passes the error's
  message to \<^verbatim>\<open>next\<close> and returns the request as it received it. The entries stored in
  \<^verbatim>\<open>metadata.params\<close> before the throw are dropped with the record: nothing is assigned
  to \<^verbatim>\<open>req.swagger\<close>.
\<close>

theorem error_aborts_resolution:
  assumes "findPath table (pathname (url req)) = Some (rt, m)"
    and "map_of (operations rt) (toLowerCase (method req)) = Some opn"
    and "eachParam rt m req
           (lodash_union (pathItem.parameters (route.path rt)) (operation.parameters opn)) [] =
           (ps, Some err)"
  shows "swaggerMetadata table so req = (req, Some (message err))"
  using assms
  by (simp add: swaggerMetadata_def Let_def newMetadata_def getProperty_own operationParameters_def)

theorem error_aborts_resolution_witness:
  "eachParam petRoute petMatch putPet42
     (lodash_union (pathItem.parameters (route.path petRoute)) (operation.parameters putPet)) [] =
     ([(''petId'', \<lparr>schema = petIdParam, value = Some (JString ''42'')\<rparr>)], Some bodyError) \<and>
   swaggerMetadata (gatherPaths specCompile (basePath petstore) (paths petstore) []) petstore putPet42 =
     (putPet42, Some (message bodyError)) \<and>
   swagger putPet42 = None"
proof -
  let ?t = "gatherPaths specCompile (basePath petstore) (paths petstore) []"
  have f: "findPath ?t (pathname (url putPet42)) = Some (petRoute, petMatch)"
    using petstore_find by (simp add: putPet42_def pathname_def)
  have o: "map_of (operations petRoute) (toLowerCase (method putPet42)) = Some putPet"
    by (simp add: petRoute_operations putPet42_def toLowerCase_def lower_char_def)
  have e: "eachParam petRoute petMatch putPet42
     (lodash_union (pathItem.parameters (route.path petRoute)) (operation.parameters putPet)) [] =
     ([(''petId'', \<lparr>schema = petIdParam, value = Some (JString ''42'')\<rparr>)], Some bodyError)"
    by (simp add: put_declarations resolveParam_def getValue_def paramType_def useDefault_def
        matchAt_def petRoute_keys petMatch_def petIdParam_def petBodyParam_def putPet42_def)
  from error_aborts_resolution [OF f o e, of petstore] e show ?thesis by (simp add: putPet42_def)
qed

subsection \<open>C6: no route, or no operation for the method\<close>

text \<open>
  Claim C6, as amended: a request whose path matches no pattern of the description is not
  an error, and neither is a request whose path matches a route while its lower-cased
  method names no property of the route's \<^verbatim>\<open>operations\<close>: no operation is declared for it
  on the path item, and it is not a name that every plain object inherits. In both cases
  the handler calls \<^verbatim>\<open>next()\<close> without an argument and returns the request as it
  received it: the metadata record it built is a local value, \<^verbatim>\<open>req.swagger\<close> is assigned
  only under the test of line 89, and no record is handed on.
\<close>

theorem unmatched_request_passes_untouched:
  "((\<forall>(n, p) \<in> set (paths so). exec (fst (cmp (basePath so) n)) (pathname (url req)) = None) \<longrightarrow>
      swaggerMetadataMiddleware cmp so req = (req, None)) \<and>
   (findPath (gatherPaths cmp (basePath so) (paths so) []) (pathname (url req)) = Some (rt, m) \<and>
    map_of (methodProps (route.path rt)) (toLowerCase (method req)) = None \<and>
    toLowerCase (method req) \<notin> set objectPrototype \<longrightarrow>
      swaggerMetadataMiddleware cmp so req = (req, None))"
proof (intro conjI impI)
  let ?t = "gatherPaths cmp (basePath so) (paths so) []"
  assume none: "\<forall>(n, p) \<in> set (paths so). exec (fst (cmp (basePath so) n)) (pathname (url req)) = None"
  have "\<forall>(k, rt) \<in> set ?t. exec (re rt) (pathname (url req)) = None"
    using none by (auto dest!: gatherPaths_routes simp: routeOf_simps)
  then have "findPath ?t (pathname (url req)) = None" by (rule findPath_None)
  then show "swaggerMetadataMiddleware cmp so req = (req, None)"
    by (simp add: swaggerMetadataMiddleware_def swaggerMetadata_def Let_def)
next
  let ?t = "gatherPaths cmp (basePath so) (paths so) []"
  assume a: "findPath ?t (pathname (url req)) = Some (rt, m) \<and>
    map_of (methodProps (route.path rt)) (toLowerCase (method req)) = None \<and>
    toLowerCase (method req) \<notin> set objectPrototype"
  then obtain k where "(k, rt) \<in> set ?t" using findPath_Some by blast
  then have "operations rt = gatherOperations (route.path rt) methodNames []"
    by (auto dest!: gatherPaths_routes simp: routeOf_simps)
  with a have "map_of (operations rt) (toLowerCase (method req)) = None"
    by (simp add: gatherOperations_map_of)
  with a have "getProperty (operations rt) (toLowerCase (method req)) = None"
    by (simp add: getProperty_undefined)
  with a show "swaggerMetadataMiddleware cmp so req = (req, None)"
    by (simp add: swaggerMetadataMiddleware_def swaggerMetadata_def Let_def newMetadata_def)
qed

theorem unmatched_request_passes_untouched_witness:
  "exec (fst (specCompile (basePath petstore) ''/pets/{petId}'')) (pathname (url getUnknown)) = None \<and>
   swaggerMetadataMiddleware specCompile petstore getUnknown = (getUnknown, None) \<and>
   findPath (gatherPaths specCompile (basePath petstore) (paths petstore) []) (pathname (url deletePet42)) =
     Some (petRoute, petMatch) \<and>
   map_of (methodProps (route.path petRoute)) (toLowerCase (method deletePet42)) = None \<and>
   toLowerCase (method deletePet42) \<notin> set objectPrototype \<and>
   swaggerMetadataMiddleware specCompile petstore deletePet42 = (deletePet42, None)"
proof -
  have u: "\<forall>(n, p) \<in> set (paths petstore).
      exec (fst (specCompile (basePath petstore) n)) (pathname (url getUnknown)) = None"
    by (simp add: petstore_def getUnknown_def pathname_def specCompile_def Let_def)
  have f: "findPath (gatherPaths specCompile (basePath petstore) (paths petstore) [])
      (pathname (url deletePet42)) = Some (petRoute, petMatch)"
    using petstore_find by (simp add: deletePet42_def pathname_def)
  have o: "map_of (methodProps (route.path petRoute)) (toLowerCase (method deletePet42)) = None"
    by (simp add: petRoute_path petItem_def deletePet42_def toLowerCase_def lower_char_def)
  have i: "toLowerCase (method deletePet42) \<notin> set objectPrototype"
    by (simp add: deletePet42_def toLowerCase_def lower_char_def objectPrototype_def)
  from unmatched_request_passes_untouched [of petstore specCompile getUnknown]
    unmatched_request_passes_untouched [of petstore specCompile deletePet42 petRoute petMatch]
    u f o i
  show ?thesis by (simp add: petstore_def)
qed

text \<open>
  Claim C6 as stated fails: it says that the result is the record with no path, no
  operation and no parameters, or carries the matched route with no operation. For
  \<^verbatim>\<open>GET /unknown\<close> and for \<^verbatim>\<open>DELETE /v1/pets/42\<close>, which has no declared operation, the
  request leaves the handler without any record: \<^verbatim>\<open>req.swagger\<close> stays unset. And a
  request whose method is \<^verbatim>\<open>CONSTRUCTOR\<close>, for which the path item declares nothing either,
  is given a record whose operation is the inherited \<^verbatim>\<open>constructor\<close> of the plain object
  \<^verbatim>\<open>operations\<close>, with the path-level parameter resolved.
\<close>

theorem unmatched_request_gets_no_record:
  "findPath (gatherPaths specCompile (basePath petstore) (paths petstore) [])
     (pathname (url getUnknown)) = None \<and>
   swagger (fst (swaggerMetadataMiddleware specCompile petstore getUnknown)) = None \<and>
   snd (swaggerMetadataMiddleware specCompile petstore getUnknown) = None \<and>
   map_of (methodProps petItem) (toLowerCase (method deletePet42)) = None \<and>
   swagger (fst (swaggerMetadataMiddleware specCompile petstore deletePet42)) = None \<and>
   snd (swaggerMetadataMiddleware specCompile petstore deletePet42) = None \<and>
   map_of (methodProps petItem) (toLowerCase (method constructorPet42)) = None \<and>
   swaggerMetadataMiddleware specCompile petstore constructorPet42 =
     (constructorPet42\<lparr>swagger := Some \<lparr>metadata.path = Some petItem,
        operation = Some (Inherited ''constructor''),
        params = [(''petId'', \<lparr>schema = petIdParam, value = Some (JString ''42'')\<rparr>)],
        swaggerObject = petstore\<rparr>\<rparr>, None)"
  by (simp add: model_defs petstore_def getUnknown_def deletePet42_def constructorPet42_def
      petItem_def getPet_def putPet_def petIdParam_def)

subsection \<open>C7: path parameters\<close>

text \<open>
  Claim C7, as amended, for the compiler modelled from the spec: take a base prefix
  without placeholders, a template whose placeholders each end a path segment, and one
  non-empty value without \<^verbatim>\<open>/\<close> per placeholder (a Swagger 2.0 base path has no
  templating). Then the prefix followed by the
  instantiated template matches the compiled pattern, the captures are the values in
  order, and the keys are the placeholder names. For a declaration with location
  \<^verbatim>\<open>path\<close> whose name is the name of key \<open>i\<close> and of no later key, the resolved value is
  value \<open>i\<close>; when no key bears the name, the value is undefined after the lookup.
\<close>

theorem delimited_template_round_trip:
  assumes "CHR ''{'' \<notin> set prefix"
    and "delimited (scan template None)"
    and "length vals = length (slotNames (scan template None))"
    and "\<forall>v \<in> set vals. v \<noteq> [] \<and> CHR ''/'' \<notin> set v"
    and "rPath = prefix @ instantiate (scan template None) vals"
    and "keys rt = snd (specCompile (Some prefix) template)"
  shows "exec (fst (specCompile (Some prefix) template)) rPath = Some (Some rPath # map Some vals) \<and>
         snd (specCompile (Some prefix) template) = slotNames (scan template None) \<and>
         (\<forall>p i. paramType p = ''path'' \<and> i < length (keys rt) \<and> keys rt ! i = name p \<and>
                 name p \<notin> set (drop (Suc i) (keys rt)) \<longrightarrow>
            resolveParam rt (Some rPath # map Some vals) req p =
              Inr \<lparr>schema = p, value = Some (JString (vals ! i))\<rparr>) \<and>
         (\<forall>p. paramType p = ''path'' \<and> name p \<notin> set (keys rt) \<longrightarrow>
            getValue rt (Some rPath # map Some vals) req p = Inr None)"
proof -
  let ?ts = "scan template None"
  have sc: "scan (prefix @ template) None = map Lit prefix @ ?ts"
    using assms(1) by (rule scan_literal_prefix)
  have mt: "matchTokens (map Lit prefix @ ?ts) rPath = Some vals"
    using assms(2,3,4,5) by (simp add: matchTokens_literals matchTokens_instantiate)
  have ex: "exec (fst (specCompile (Some prefix) template)) rPath = Some (Some rPath # map Some vals)"
    using sc mt by (simp add: specCompile_def Let_def)
  have ks: "snd (specCompile (Some prefix) template) = slotNames ?ts"
    using sc by (simp add: specCompile_def Let_def slotNames_literals)
  have len: "length (keys rt) = length vals"
    using assms(3,6) ks by simp
  have found: "resolveParam rt (Some rPath # map Some vals) req p =
      Inr \<lparr>schema = p, value = Some (JString (vals ! i))\<rparr>"
    if "paramType p = ''path''" "i < length (keys rt)" "keys rt ! i = name p"
      "name p \<notin> set (drop (Suc i) (keys rt))" for p i
  proof -
    have "eachKey (keys rt) 0 (Some rPath # map Some vals) (name p) None =
        matchAt (Some rPath # map Some vals) (0 + i + 1)"
      using that(2,3,4) by (rule eachKey_last)
    also have "\<dots> = Some (JString (vals ! i))"
      using that(2) len matchAt_capture [of i vals rPath] by simp
    finally show ?thesis
      using that(1) by (simp add: resolveParam_def getValue_def useDefault_def)
  qed
  have absent: "getValue rt (Some rPath # map Some vals) req p = Inr None"
    if "paramType p = ''path''" "name p \<notin> set (keys rt)" for p
    using that by (simp add: getValue_def eachKey_absent)
  from ex ks found absent show ?thesis by blast
qed

theorem delimited_template_round_trip_witness:
  "CHR ''{'' \<notin> set ''/v1'' \<and> delimited (scan ''/pets/{petId}'' None) \<and>
   ''/v1/pets/42'' = ''/v1'' @ instantiate (scan ''/pets/{petId}'' None) [''42''] \<and>
   keys petRoute = snd (specCompile (Some ''/v1'') ''/pets/{petId}'') \<and>
   exec (fst (specCompile (Some ''/v1'') ''/pets/{petId}'')) ''/v1/pets/42'' =
     Some [Some ''/v1/pets/42'', Some ''42''] \<and>
   resolveParam petRoute [Some ''/v1/pets/42'', Some ''42''] getPet42 petIdParam =
     Inr \<lparr>schema = petIdParam, value = Some (JString ''42'')\<rparr> \<and>
   getValue petRoute [Some ''/v1/pets/42'', Some ''42''] getPet42 ownerParam = Inr None"
proof -
  have h1: "CHR ''{'' \<notin> set ''/v1''" by simp
  have h2: "delimited (scan ''/pets/{petId}'' None)" by simp
  have h3: "length [''42''] = length (slotNames (scan ''/pets/{petId}'' None))" by simp
  have h4: "\<forall>v \<in> set [''42'']. v \<noteq> [] \<and> CHR ''/'' \<notin> set v" by simp
  have h5: "''/v1/pets/42'' = ''/v1'' @ instantiate (scan ''/pets/{petId}'' None) [''42'']" by simp
  have h6: "keys petRoute = snd (specCompile (Some ''/v1'') ''/pets/{petId}'')"
    by (simp add: petRoute_def routeOf_def split: prod.splits)
  note c = delimited_template_round_trip [OF h1 h2 h3 h4 h5 h6, of getPet42]
  from c have ex: "exec (fst (specCompile (Some ''/v1'') ''/pets/{petId}'')) ''/v1/pets/42'' =
     Some [Some ''/v1/pets/42'', Some ''42'']" by simp
  from c have "paramType petIdParam = ''path'' \<and> 0 < length (keys petRoute) \<and>
      keys petRoute ! 0 = name petIdParam \<and> name petIdParam \<notin> set (drop (Suc 0) (keys petRoute)) \<longrightarrow>
      resolveParam petRoute (Some ''/v1/pets/42'' # map Some [''42'']) getPet42 petIdParam =
        Inr \<lparr>schema = petIdParam, value = Some (JString ([''42''] ! 0))\<rparr>"
    by blast
  then have rp: "resolveParam petRoute [Some ''/v1/pets/42'', Some ''42''] getPet42 petIdParam =
     Inr \<lparr>schema = petIdParam, value = Some (JString ''42'')\<rparr>"
    by (simp add: petRoute_keys paramType_def petIdParam_def)
  from c have "paramType ownerParam = ''path'' \<and> name ownerParam \<notin> set (keys petRoute) \<longrightarrow>
      getValue petRoute (Some ''/v1/pets/42'' # map Some [''42'']) getPet42 ownerParam = Inr None"
    by blast
  then have gv: "getValue petRoute [Some ''/v1/pets/42'', Some ''42''] getPet42 ownerParam = Inr None"
    by (simp add: petRoute_keys paramType_def ownerParam_def)
  from h1 h2 h5 h6 ex rp gv show ?thesis by simp
qed

text \<open>
  Claim C7 as stated fails in two ways. A template that uses one placeholder name twice,
  \<^verbatim>\<open>/a/{id}/b/{id}\<close>, has the keys \<^verbatim>\<open>id, id\<close>; on \<^verbatim>\<open>/v1/a/1/b/2\<close> the captures are \<^verbatim>\<open>1\<close> and
  \<^verbatim>\<open>2\<close>, the declaration \<^verbatim>\<open>id\<close> bears the name of key 0, and its value is \<^verbatim>\<open>2\<close>: every key
  with the name assigns, so the last one stays. And a placeholder that does not end a
  segment need not capture the value it was given: \<^verbatim>\<open>/{a}-{b}\<close> instantiated with
  \<^verbatim>\<open>x-y\<close> and \<^verbatim>\<open>z\<close> is \<^verbatim>\<open>/x-y-z\<close>, which matches with the captures \<^verbatim>\<open>x\<close> and \<^verbatim>\<open>y-z\<close>.
\<close>

theorem repeated_key_last_capture_stays:
  "snd (specCompile (basePath linkStore) ''/a/{id}/b/{id}'') = [''id'', ''id''] \<and>
   exec (fst (specCompile (basePath linkStore) ''/a/{id}/b/{id}'')) (pathname (url getLink)) =
     Some [Some ''/v1/a/1/b/2'', Some ''1'', Some ''2''] \<and>
   name idPathParam = ''id'' \<and> in' idPathParam = Some ''path'' \<and>
   swaggerMetadataMiddleware specCompile linkStore getLink =
     (getLink\<lparr>swagger := Some \<lparr>metadata.path = Some linkItem, operation = Some (Own readLink),
        params = [(''id'', \<lparr>schema = idPathParam, value = Some (JString ''2'')\<rparr>)],
        swaggerObject = linkStore\<rparr>\<rparr>, None) \<and>
   instantiate (scan ''/{a}-{b}'' None) [''x-y'', ''z''] = ''/x-y-z'' \<and>
   exec (fst (specCompile (Some ''/v1'') ''/{a}-{b}'')) (''/v1'' @ ''/x-y-z'') =
     Some [Some ''/v1/x-y-z'', Some ''x'', Some ''y-z'']"
  by (simp add: model_defs linkStore_def getLink_def linkItem_def readLink_def idPathParam_def)

subsection \<open>C8: defaults\<close>

text \<open>
  Claim C8: when the lookup leaves the value undefined and the declaration has a schema
  with a default, the entry's value is that default as it stands; when the lookup found a
  value, the entry's value is the value found.
\<close>

theorem default_used_when_unresolved:
  "(getValue rt m req p = Inr None \<longrightarrow> param.schema p = Some s \<longrightarrow> default' s = Some d \<longrightarrow>
      resolveParam rt m req p = Inr \<lparr>schema = p, value = Some d\<rparr>) \<and>
   (getValue rt m req p = Inr (Some v) \<longrightarrow>
      resolveParam rt m req p = Inr \<lparr>schema = p, value = Some v\<rparr>)"
  by (simp add: resolveParam_def useDefault_def)

theorem default_used_when_unresolved_witness:
  "getValue petRoute petMatch getPet42 limitParam = Inr None \<and>
   param.schema limitParam = Some \<lparr>default' = Some (JNumber 20)\<rparr> \<and>
   resolveParam petRoute petMatch getPet42 limitParam =
     Inr \<lparr>schema = limitParam, value = Some (JNumber 20)\<rparr> \<and>
   getValue petRoute petMatch getPet42Limit limitParam = Inr (Some (JString ''5'')) \<and>
   resolveParam petRoute petMatch getPet42Limit limitParam =
     Inr \<lparr>schema = limitParam, value = Some (JString ''5'')\<rparr>"
proof -
  have g1: "getValue petRoute petMatch getPet42 limitParam = Inr None"
    by (simp add: getValue_def paramType_def limitParam_def getPet42_def)
  have s: "param.schema limitParam = Some \<lparr>default' = Some (JNumber 20)\<rparr>"
    by (simp add: limitParam_def)
  have g2: "getValue petRoute petMatch getPet42Limit limitParam = Inr (Some (JString ''5''))"
    by (simp add: getValue_def paramType_def limitParam_def getPet42Limit_def)
  from default_used_when_unresolved
      [of petRoute petMatch getPet42 limitParam "\<lparr>default' = Some (JNumber 20)\<rparr>" "JNumber 20"]
    default_used_when_unresolved
      [of petRoute petMatch getPet42Limit limitParam _ _ "JString ''5''"] g1 s g2
  show ?thesis by simp
qed

subsection \<open>C9: resolving twice\<close>

text \<open>
  Claim C9: running the handler again on the request it returned, against the same route
  table, returns the same request and the same argument for \<^verbatim>\<open>next\<close>. The handler reads
  the url, the method, the query, the headers and the body, and writes \<^verbatim>\<open>req.swagger\<close>
  only, so the second run computes the metadata record of the first.
\<close>

theorem resolution_idempotent:
  "swaggerMetadataMiddleware cmp so (fst (swaggerMetadataMiddleware cmp so req)) =
     swaggerMetadataMiddleware cmp so req"
  by (simp add: swaggerMetadataMiddleware_def swaggerMetadata_twice)

subsection \<open>C10: templates with the same pattern string\<close>



end
